theory Spec2Isabelle
  imports Complex_Main
begin

section \<open>Python values, errors and results\<close>

text \<open>
  The development embeds \<^verbatim>\<open>memtorch/mn/Conv3d.py\<close>: the constructor of the memristive
  \<^verbatim>\<open>Conv3d\<close> layer, its \<^verbatim>\<open>forward\<close> method (legacy and simulated mode) and \<^verbatim>\<open>tune\<close>.
  Every exception the source can raise is a value \<open>Inl e\<close> of the result type
  \<open>error + 'a\<close>.
\<close>

datatype error =
    AssertionError
  | ZeroDivisionError
  | RuntimeError
  | IndexError
  | AttributeError
  | UnboundLocalError

text \<open>
  A dynamically typed argument (\<^verbatim>\<open>max_input_voltage\<close>, \<^verbatim>\<open>ADC_resolution\<close>): an \<^verbatim>\<open>int\<close>, a
  \<^verbatim>\<open>float\<close>, or an object of some other type (a string, a bool, a tensor ...).
\<close>

datatype pyval = PyInt int | PyFloat real | PyOther

fun is_int_or_float :: "pyval \<Rightarrow> bool" where
  "is_int_or_float (PyInt _) = True"
| "is_int_or_float (PyFloat _) = True"
| "is_int_or_float PyOther = False"

fun num_val :: "pyval \<Rightarrow> real" where
  "num_val (PyInt i) = real_of_int i"
| "num_val (PyFloat r) = r"
| "num_val PyOther = 0"

fun bindE :: "error + 'a \<Rightarrow> ('a \<Rightarrow> error + 'b) \<Rightarrow> error + 'b" where
  "bindE (Inl e) f = Inl e"
| "bindE (Inr x) f = f x"

text \<open>
  \<^verbatim>\<open>int(a / b)\<close> on Python integers with \<open>b \<noteq> 0\<close>: the true quotient, truncated toward
  zero. The quotient is taken exactly; the rounding of the intermediate float is not
  modelled (it cannot change the result for tensor sizes below \<open>2^53\<close>).
\<close>

definition py_int_truediv :: "int \<Rightarrow> int \<Rightarrow> int" where
  "py_int_truediv a b = sgn a * sgn b * (\<bar>a\<bar> div \<bar>b\<bar>)"

section \<open>Tensors\<close>

text \<open>
  A tensor is its shape and its elements in logical row-major order. Floating-point
  elements are idealised as reals. A well-formed tensor has \<open>length (vals t) = numel (shape t)\<close>.
\<close>

record tensor =
  shape :: "nat list"
  vals :: "real list"

definition numel :: "nat list \<Rightarrow> nat" where
  "numel sh = prod_list sh"

fun unravel :: "nat list \<Rightarrow> nat \<Rightarrow> nat list" where
  "unravel [] i = []"
| "unravel (d # ds) i = (i div numel ds) # unravel ds (i mod numel ds)"

fun ravel :: "nat list \<Rightarrow> nat list \<Rightarrow> nat" where
  "ravel (d # ds) (i # js) = i * numel ds + ravel ds js"
| "ravel _ _ = 0"

definition elem_at :: "tensor \<Rightarrow> nat list \<Rightarrow> real" where
  "elem_at t idx = vals t ! ravel (shape t) idx"

definition tabulate :: "nat list \<Rightarrow> (nat list \<Rightarrow> real) \<Rightarrow> tensor" where
  "tabulate sh f = \<lparr>shape = sh, vals = map (\<lambda>i. f (unravel sh i)) [0..<numel sh]\<rparr>"

definition zeros :: "nat list \<Rightarrow> tensor" where
  "zeros sh = \<lparr>shape = sh, vals = replicate (numel sh) 0\<rparr>"

text \<open>\<^verbatim>\<open>t[b]\<close> for \<open>b\<close> below the first dimension.\<close>

definition select0 :: "tensor \<Rightarrow> nat \<Rightarrow> tensor" where
  "select0 t b =
     (let n = numel (tl (shape t))
      in \<lparr>shape = tl (shape t), vals = take n (drop (b * n) (vals t))\<rparr>)"

text \<open>
  \<^verbatim>\<open>nn.functional.pad(t, pad=(p2, p2, p1, p1, p0, p0))\<close>: zero padding of the last three
  dimensions, symmetric on each.
\<close>

definition pad3 :: "tensor \<Rightarrow> nat \<times> nat \<times> nat \<Rightarrow> error + tensor" where
  "pad3 t p =
     (case p of (p0, p1, p2) \<Rightarrow>
        if length (shape t) < 3 then Inl RuntimeError
        else
          let pads = replicate (length (shape t) - 3) 0 @ [p0, p1, p2]
          in Inr (tabulate (map2 (\<lambda>d q. d + 2 * q) (shape t) pads)
                    (\<lambda>idx. if list_all2 (\<lambda>i (d, q). q \<le> i \<and> i < q + d) idx (zip (shape t) pads)
                            then elem_at t (map2 (\<lambda>i q. i - q) idx pads) else 0)))"

text \<open>\<^verbatim>\<open>t.unfold(dim, sz, step)\<close>: sliding windows along \<open>dim\<close>, collected in a new last dimension.\<close>

definition unfold :: "nat \<Rightarrow> nat \<Rightarrow> nat \<Rightarrow> tensor \<Rightarrow> error + tensor" where
  "unfold axis sz step t =
     (if length (shape t) \<le> axis then Inl IndexError
      else if shape t ! axis < sz \<or> step = 0 then Inl RuntimeError
      else Inr (tabulate ((shape t)[axis := (shape t ! axis - sz) div step + 1] @ [sz])
                  (\<lambda>idx. elem_at t ((butlast idx)[axis := idx ! axis * step + last idx]))))"

fun index_of :: "nat list \<Rightarrow> nat \<Rightarrow> nat" where
  "index_of [] j = 0"
| "index_of (d # ds) j = (if d = j then 0 else Suc (index_of ds j))"

text \<open>\<^verbatim>\<open>t.permute(*dims)\<close>: dimension \<open>i\<close> of the result is dimension \<open>dims ! i\<close> of \<open>t\<close>.\<close>

definition permute :: "nat list \<Rightarrow> tensor \<Rightarrow> error + tensor" where
  "permute dims t =
     (if sort dims \<noteq> [0..<length (shape t)] then Inl RuntimeError
      else Inr (tabulate (map (\<lambda>d. shape t ! d) dims)
                  (\<lambda>idx. elem_at t (map (\<lambda>j. idx ! index_of dims j) [0..<length dims]))))"

text \<open>\<^verbatim>\<open>t.reshape(-1, k)\<close>.\<close>

definition reshape_rows :: "nat \<Rightarrow> tensor \<Rightarrow> error + tensor" where
  "reshape_rows k t =
     (if k = 0 then Inl RuntimeError
      else if numel (shape t) mod k \<noteq> 0 then Inl RuntimeError
      else Inr \<lparr>shape = [numel (shape t) div k, k], vals = vals t\<rparr>)"

text \<open>\<^verbatim>\<open>t.view(size=sh)\<close>.\<close>

definition view :: "nat list \<Rightarrow> tensor \<Rightarrow> error + tensor" where
  "view sh t =
     (if numel sh \<noteq> numel (shape t) then Inl RuntimeError
      else Inr \<lparr>shape = sh, vals = vals t\<rparr>)"

text \<open>\<^verbatim>\<open>torch.matmul(a, b)\<close> on matrices.\<close>

definition matmul :: "tensor \<Rightarrow> tensor \<Rightarrow> error + tensor" where
  "matmul a b =
     (if length (shape a) = 2 \<and> length (shape b) = 2 \<and> shape a ! 1 = shape b ! 0
      then Inr (tabulate [shape a ! 0, shape b ! 1]
                  (\<lambda>idx. sum_list (map (\<lambda>k. elem_at a [idx ! 0, k] * elem_at b [k, idx ! 1])
                                    [0..<shape a ! 1])))
      else Inl RuntimeError)"

text \<open>\<^verbatim>\<open>t.T\<close>: the dimensions reversed.\<close>

definition transposeT :: "tensor \<Rightarrow> tensor" where
  "transposeT t = tabulate (rev (shape t)) (\<lambda>idx. elem_at t (rev idx))"

text \<open>
  \<^verbatim>\<open>out[b] = v\<close> where \<open>v\<close> has the shape of \<open>out[b]\<close> with a leading dimension of size 1.
\<close>

definition set_slot :: "tensor \<Rightarrow> nat \<Rightarrow> tensor \<Rightarrow> tensor" where
  "set_slot out b v =
     tabulate (shape out) (\<lambda>idx. if idx ! 0 = b then elem_at v (0 # tl idx) else elem_at out idx)"

text \<open>
  \<^verbatim>\<open>out[b] += bias.data.view(-1, 1, 1, 1).expand_as(out[b])\<close>: the bias, one value per
  channel, is added to every element of slot \<open>b\<close> and to no other slot.
\<close>

definition add_bias_slot :: "tensor \<Rightarrow> nat \<Rightarrow> tensor \<Rightarrow> error + tensor" where
  "add_bias_slot out b bias =
     (let n = numel (shape bias)
      in if n = shape out ! 1 \<or> n = 1
         then Inr (tabulate (shape out)
                     (\<lambda>idx. if idx ! 0 = b
                            then elem_at out idx + vals bias ! (if n = 1 then 0 else idx ! 1)
                            else elem_at out idx))
         else Inl RuntimeError)"

text \<open>
  \<^verbatim>\<open>torch.nn.functional.conv3d(input, weight, bias, stride, padding)\<close>, the dense 3-D
  convolution of PyTorch: element \<open>[n, o, d, h, w]\<close> of the result is the bias of channel
  \<open>o\<close> plus the sum over \<open>c, i, j, k\<close> of
  \<open>input\<^sub>p\<^sub>a\<^sub>d[n, c, d * s0 + i, h * s1 + j, w * s2 + k] * weight[o, c, i, j, k]\<close>.
\<close>

definition conv3d ::
  "tensor \<Rightarrow> tensor \<Rightarrow> tensor option \<Rightarrow> nat \<times> nat \<times> nat \<Rightarrow> nat \<times> nat \<times> nat \<Rightarrow> error + tensor" where
  "conv3d input w b strd pdd =
     (case (strd, pdd) of ((s0, s1, s2), (p0, p1, p2)) \<Rightarrow>
        if length (shape input) = 5 \<and> length (shape w) = 5 then
          (let N = shape input ! 0; C = shape input ! 1;
               D = shape input ! 2 + 2 * p0; H = shape input ! 3 + 2 * p1;
               W = shape input ! 4 + 2 * p2;
               OC = shape w ! 0; k0 = shape w ! 2; k1 = shape w ! 3; k2 = shape w ! 4
           in if shape w ! 1 = C \<and> 0 < s0 \<and> 0 < s1 \<and> 0 < s2
                 \<and> k0 \<le> D \<and> k1 \<le> H \<and> k2 \<le> W
                 \<and> (case b of None \<Rightarrow> True | Some bv \<Rightarrow> numel (shape bv) = OC)
              then bindE (pad3 input pdd) (\<lambda>x.
                Inr (tabulate [N, OC, (D - k0) div s0 + 1, (H - k1) div s1 + 1, (W - k2) div s2 + 1]
                  (\<lambda>idx.
                     (case b of None \<Rightarrow> 0 | Some bv \<Rightarrow> vals bv ! (idx ! 1))
                     + sum_list
                         [elem_at x [idx ! 0, c, idx ! 2 * s0 + i, idx ! 3 * s1 + j, idx ! 4 * s2 + k]
                            * elem_at w [idx ! 1, c, i, j, k].
                          c \<leftarrow> [0..<C], i \<leftarrow> [0..<k0], j \<leftarrow> [0..<k1], k \<leftarrow> [0..<k2]])))
              else Inl RuntimeError)
        else Inl RuntimeError)"

section \<open>The layer and its collaborators\<close>

text \<open>A \<^verbatim>\<open>torch.nn.Parameter\<close>: its data and its gradient-tracking flag.\<close>

record parameter =
  data :: tensor
  requires_grad :: bool

text \<open>
  The argument \<^verbatim>\<open>convolutional_layer\<close>: an \<^verbatim>\<open>nn.Conv3d\<close> with its attributes, or an object
  of another class.
\<close>

record conv_layer =
  src_in_channels :: nat
  src_out_channels :: nat
  src_kernel_size :: "nat \<times> nat \<times> nat"
  src_stride :: "nat \<times> nat \<times> nat"
  src_padding :: "nat \<times> nat \<times> nat"
  src_weight :: parameter
  src_bias :: "parameter option"

datatype module = Conv3dModule conv_layer | OtherModule

text \<open>
  A crossbar of \<^verbatim>\<open>memtorch.bh.crossbar\<close> as far as \<^verbatim>\<open>forward\<close> reads it. The class is
  not part of the sources.
\<close>

record crossbar =
  conductance_matrix :: tensor
  tiles_map :: tensor
  rows :: nat
  columns :: nat

text \<open>
  Modelled from the spec: \<^verbatim>\<open>naive_tune\<close> (\<^verbatim>\<open>memtorch.map.Module\<close>) is not part of the
  sources. The output transform it returns is, in the spec's words, a stored affine map
  (scale, shift); the transform set by the constructor is the identity \<^verbatim>\<open>lambda x: x\<close>.
\<close>

datatype transform = Identity | Affine real real

fun apply_transform :: "transform \<Rightarrow> tensor \<Rightarrow> tensor" where
  "apply_transform Identity x = x"
| "apply_transform (Affine c i) x = x\<lparr>vals := map (\<lambda>v. v * c + i) (vals x)\<rparr>"

text \<open>
  The state of a \<^verbatim>\<open>memtorch.mn.Conv3d\<close> object. \<open>has_non_linear\<close> and \<open>has_simulate\<close> are
  \<^verbatim>\<open>hasattr(self, "non_linear")\<close> and \<^verbatim>\<open>hasattr(self, "simulate")\<close>; the constructor sets
  neither attribute.
\<close>

record layer =
  in_channels :: nat
  out_channels :: nat
  kernel_size :: "nat \<times> nat \<times> nat"
  stride :: "nat \<times> nat \<times> nat"
  padding :: "nat \<times> nat \<times> nat"
  weight :: parameter
  bias :: "parameter option"
  tile_shape :: "(nat \<times> nat) option"
  max_input_voltage :: "pyval option"
  ADC_resolution :: "pyval option"
  ADC_overflow_rate :: "real option"
  quant_method :: "string option"
  use_bindings :: bool
  verbose :: bool
  forward_legacy_enabled :: bool
  crossbars :: "crossbar list"
  crossbar_operation :: "crossbar list \<Rightarrow> (crossbar \<Rightarrow> tensor) \<Rightarrow> tensor"
  transform_output :: transform
  has_non_linear :: bool
  has_simulate :: bool

text \<open>
  The functions and constants the module imports from the rest of MemTorch, none of them
  part of the sources, taken as parameters. \<open>init_crossbar\<close> stands for the call with the
  device model, the mapping and programming routines, \<^verbatim>\<open>p_l\<close> and the scheme fixed.
\<close>

record collab =
  quant_methods :: "string list"
  init_crossbar ::
    "tensor \<Rightarrow> (nat \<times> nat) option \<Rightarrow> bool
       \<Rightarrow> crossbar list \<times> (crossbar list \<Rightarrow> (crossbar \<Rightarrow> tensor) \<Rightarrow> tensor)"
  convert_range :: "tensor \<Rightarrow> real \<Rightarrow> real \<Rightarrow> real \<Rightarrow> real \<Rightarrow> tensor"
  simulate_matmul ::
    "tensor \<Rightarrow> crossbar \<Rightarrow> bool \<Rightarrow> tensor option \<Rightarrow> (nat \<times> nat) option \<Rightarrow> pyval option
       \<Rightarrow> pyval option \<Rightarrow> real option \<Rightarrow> string option \<Rightarrow> bool \<Rightarrow> tensor"
  gen_tiles :: "tensor \<Rightarrow> nat \<times> nat \<Rightarrow> bool \<Rightarrow> tensor \<times> tensor"
  tile_matmul ::
    "tensor \<Rightarrow> tensor \<Rightarrow> nat list \<Rightarrow> tensor \<Rightarrow> tensor \<Rightarrow> nat \<times> nat \<Rightarrow> pyval option
       \<Rightarrow> real option \<Rightarrow> string option \<Rightarrow> bool \<Rightarrow> tensor"
  quantize :: "tensor \<Rightarrow> pyval option \<Rightarrow> real option \<Rightarrow> string \<Rightarrow> tensor"
  naive_tune :: "layer \<Rightarrow> nat list \<Rightarrow> bool \<Rightarrow> error + transform \<times> layer"

section \<open>Construction\<close>

text \<open>
  The arguments of \<^verbatim>\<open>__init__\<close>. \<open>base_bias\<close> is the data of the bias parameter that
  \<^verbatim>\<open>nn.Conv3d.__init__(in_channels, out_channels, kernel_size, **kwargs)\<close> creates: a freshly
  initialised vector, or \<open>None\<close> when \<^verbatim>\<open>bias=False\<close> is among the keyword arguments.
\<close>

record ctor_args =
  convolutional_layer :: module
  arg_tile_shape :: "(nat \<times> nat) option"
  arg_max_input_voltage :: "pyval option"
  arg_ADC_resolution :: "pyval option"
  arg_ADC_overflow_rate :: "real option"
  arg_quant_method :: "string option"
  arg_use_bindings :: bool
  arg_verbose :: bool
  base_bias :: "tensor option"

fun valid_ADC_resolution :: "pyval option \<Rightarrow> bool" where
  "valid_ADC_resolution (Some (PyInt n)) = (0 < n)"
| "valid_ADC_resolution _ = False"

definition init :: "collab \<Rightarrow> ctor_args \<Rightarrow> error + layer" where
  "init X a =
     (case convolutional_layer a of
        OtherModule \<Rightarrow> Inl AssertionError
      | Conv3dModule cl \<Rightarrow>
          let qm = (if arg_quant_method a \<in> set (map Some (quant_methods X))
                    then arg_quant_method a else None)
          in if arg_quant_method a \<noteq> None \<and> \<not> valid_ADC_resolution (arg_ADC_resolution a)
             then Inl AssertionError
             else if arg_quant_method a \<noteq> None \<and> arg_ADC_overflow_rate a = None
             then Inl AssertionError
             else
               (case (src_bias cl, base_bias a) of
                  (Some sb, None) \<Rightarrow> Inl AttributeError
                | (sb, bb) \<Rightarrow>
                    let w = \<lparr>data = data (src_weight cl), requires_grad = False\<rparr>;
                        b = (case sb of
                               Some s \<Rightarrow> Some \<lparr>data = data s, requires_grad = False\<rparr>
                             | None \<Rightarrow> map_option (\<lambda>d. \<lparr>data = d, requires_grad = True\<rparr>) bb);
                        cb = init_crossbar X (data w) (arg_tile_shape a) (arg_use_bindings a)
                    in Inr \<lparr>in_channels = src_in_channels cl,
                            out_channels = src_out_channels cl,
                            kernel_size = src_kernel_size cl,
                            stride = src_stride cl,
                            padding = src_padding cl,
                            weight = w,
                            bias = b,
                            tile_shape = arg_tile_shape a,
                            max_input_voltage = arg_max_input_voltage a,
                            ADC_resolution = arg_ADC_resolution a,
                            ADC_overflow_rate = arg_ADC_overflow_rate a,
                            quant_method = qm,
                            use_bindings = arg_use_bindings a,
                            verbose = arg_verbose a,
                            forward_legacy_enabled = True,
                            crossbars = fst cb,
                            crossbar_operation = snd cb,
                            transform_output = Identity,
                            has_non_linear = False,
                            has_simulate = False\<rparr>))"

section \<open>The forward pass\<close>

text \<open>
  The three entries of \<^verbatim>\<open>output_dim\<close>, in the order the source computes them: reading
  \<^verbatim>\<open>input.shape[i]\<close> raises past the rank of the input, dividing by a zero stride raises.
\<close>

definition output_dim :: "layer \<Rightarrow> tensor \<Rightarrow> error + int list" where
  "output_dim L input =
     (case (kernel_size L, stride L, padding L) of ((k0, k1, k2), (s0, s1, s2), (p0, p1, p2)) \<Rightarrow>
        if length (shape input) < 3 then Inl IndexError
        else if s0 = 0 then Inl ZeroDivisionError
        else if length (shape input) < 4 then Inl IndexError
        else if s1 = 0 then Inl ZeroDivisionError
        else if length (shape input) < 5 then Inl IndexError
        else if s2 = 0 then Inl ZeroDivisionError
        else Inr [py_int_truediv (int (shape input ! 2) - int k0 + 2 * int p0) (int s0) + 1,
                  py_int_truediv (int (shape input ! 3) - int k1 + 2 * int p1) (int s1) + 1,
                  py_int_truediv (int (shape input ! 4) - int k2 + 2 * int p2) (int s2) + 1])"

text \<open>Steps 1 and 2 of an iteration: padding, then the encoding into the voltage range.\<close>

definition pad_input :: "layer \<Rightarrow> tensor \<Rightarrow> nat \<Rightarrow> error + tensor" where
  "pad_input L input batch =
     (if padding L = (0, 0, 0) then Inr (select0 input batch)
      else pad3 (select0 input batch) (padding L))"

definition encode_input :: "collab \<Rightarrow> layer \<Rightarrow> tensor \<Rightarrow> error + tensor" where
  "encode_input X L batch_input =
     (case max_input_voltage L of
        None \<Rightarrow> Inr batch_input
      | Some v \<Rightarrow>
          if is_int_or_float v \<and> 0 < num_val v then
            (case vals batch_input of
               [] \<Rightarrow> Inl RuntimeError
             | x # xs \<Rightarrow>
                 Inr (convert_range X batch_input (fold min xs x) (fold max xs x)
                        (- num_val v) (num_val v)))
          else Inl AssertionError)"

text \<open>Step 3: the three \<^verbatim>\<open>unfold\<close> calls, \<^verbatim>\<open>permute(1, 2, 3, 0, 4, 5, 6)\<close> and \<^verbatim>\<open>reshape\<close>.\<close>

definition unfold_input :: "layer \<Rightarrow> tensor \<Rightarrow> error + tensor" where
  "unfold_input L batch_input =
     (case (kernel_size L, stride L) of ((k0, k1, k2), (s0, s1, s2)) \<Rightarrow>
        bindE (unfold 1 k0 s0 batch_input) (\<lambda>u1.
        bindE (unfold 2 k1 s1 u1) (\<lambda>u2.
        bindE (unfold 3 k2 s2 u2) (\<lambda>u3.
        bindE (permute [1, 2, 3, 0, 4, 5, 6] u3) (\<lambda>u.
        reshape_rows (in_channels L * k0 * k1 * k2) u)))))"

text \<open>Step 4, the branch taken when the object has the attribute \<^verbatim>\<open>non_linear\<close>.\<close>

definition nonlinear_matmul :: "collab \<Rightarrow> layer \<Rightarrow> tensor \<Rightarrow> error + tensor" where
  "nonlinear_matmul X L unfolded_batch_input =
     bindE (case tile_shape L of
              None \<Rightarrow> Inr (None, None)
            | Some ts \<Rightarrow>
                (case crossbars L of
                   [] \<Rightarrow> Inl IndexError
                 | c # cs \<Rightarrow> Inr (Some (tiles_map c), Some (rows c, columns c))))
       (\<lambda>(tm, crossbar_shape).
          let nl = (if has_simulate L then False else True)
          in Inr (transposeT
                    (crossbar_operation L (crossbars L)
                       (\<lambda>crossbar. simulate_matmul X unfolded_batch_input crossbar nl tm
                          crossbar_shape (max_input_voltage L) (ADC_resolution L)
                          (ADC_overflow_rate L) (quant_method L) (use_bindings L)))))"

text \<open>Step 4, the other branch: the tiled product, or the dense product and its quantization.\<close>

definition linear_matmul :: "collab \<Rightarrow> layer \<Rightarrow> tensor \<Rightarrow> error + tensor" where
  "linear_matmul X L unfolded_batch_input =
     (case tile_shape L of
        Some ts \<Rightarrow>
          (case gen_tiles X unfolded_batch_input ts (use_bindings L) of (tiles, tmap) \<Rightarrow>
             (case crossbars L of
                [] \<Rightarrow> Inl IndexError
              | c # cs \<Rightarrow>
                  Inr (transposeT
                         (tile_matmul X tiles tmap (shape unfolded_batch_input)
                            (crossbar_operation L (crossbars L) conductance_matrix)
                            (tiles_map c) (rows c, columns c) (ADC_resolution L)
                            (ADC_overflow_rate L) (quant_method L) (use_bindings L)))))
      | None \<Rightarrow>
          bindE (matmul unfolded_batch_input
                   (crossbar_operation L (crossbars L) conductance_matrix))
            (\<lambda>m. case quant_method L of
                    None \<Rightarrow> Inr (transposeT m)
                  | Some q \<Rightarrow>
                      Inr (quantize X (transposeT m) (ADC_resolution L) (ADC_overflow_rate L) q)))"

text \<open>
  One iteration of the loop over the batch. The assignment \<^verbatim>\<open>out[batch] = out_.view(...)\<close>
  stands in the \<^verbatim>\<open>else\<close> branch of \<^verbatim>\<open>if hasattr(self, "non_linear")\<close>: the non-linear
  branch computes \<^verbatim>\<open>out_\<close> and leaves \<^verbatim>\<open>out\<close> as it was.
\<close>

definition batch_step ::
  "collab \<Rightarrow> layer \<Rightarrow> tensor \<Rightarrow> nat list \<Rightarrow> nat \<Rightarrow> tensor \<Rightarrow> error + tensor" where
  "batch_step X L input od batch out =
     bindE (pad_input L input batch) (\<lambda>padded.
     bindE (encode_input X L padded) (\<lambda>batch_input.
     bindE (unfold_input L batch_input) (\<lambda>unfolded_batch_input.
       if has_non_linear L then
         bindE (nonlinear_matmul X L unfolded_batch_input) (\<lambda>out'. Inr out)
       else
         bindE (linear_matmul X L unfolded_batch_input) (\<lambda>out'.
         bindE (view (1 # out_channels L # od) out') (\<lambda>v.
         Inr (set_slot out batch v))))))"

fun batch_loop ::
  "collab \<Rightarrow> layer \<Rightarrow> tensor \<Rightarrow> nat list \<Rightarrow> nat list \<Rightarrow> tensor \<Rightarrow> error + tensor" where
  "batch_loop X L input od [] out = Inr out"
| "batch_loop X L input od (batch # rest) out =
     bindE (batch_step X L input od batch out) (batch_loop X L input od rest)"

text \<open>
  The simulated mode. After the loop the variable \<^verbatim>\<open>batch\<close> holds the last index of the
  range, and is unbound when the range was empty; \<^verbatim>\<open>out[batch] += ...\<close> reads it.
\<close>

definition forward_simulated :: "collab \<Rightarrow> layer \<Rightarrow> tensor \<Rightarrow> error + tensor" where
  "forward_simulated X L input =
     bindE (output_dim L input) (\<lambda>od.
       if list_ex (\<lambda>d. d < 0) od then Inl RuntimeError
       else
         bindE (batch_loop X L input (map nat od) [0..<shape input ! 0]
                  (zeros (shape input ! 0 # out_channels L # map nat od)))
           (\<lambda>out.
              case bias L of
                None \<Rightarrow> Inr (apply_transform (transform_output L) out)
              | Some b \<Rightarrow>
                  if shape input ! 0 = 0 then Inl UnboundLocalError
                  else add_bias_slot (apply_transform (transform_output L) out)
                         (shape input ! 0 - 1) (data b)))"

definition forward :: "collab \<Rightarrow> layer \<Rightarrow> tensor \<Rightarrow> error + tensor" where
  "forward X L input =
     (if forward_legacy_enabled L
      then conv3d input (data (weight L)) (map_option data (bias L)) (stride L) (padding L)
      else forward_simulated X L input)"

section \<open>Calibration\<close>

text \<open>
  \<^verbatim>\<open>tune\<close> passes the object itself to \<^verbatim>\<open>naive_tune\<close>, which may change it, and then
  assigns the returned transform.
\<close>

definition tune :: "collab \<Rightarrow> layer \<Rightarrow> nat \<Rightarrow> nat \<Rightarrow> error + layer" where
  "tune X L input_batch_size input_shape =
     bindE (naive_tune X L
              [input_batch_size, in_channels L, input_shape, input_shape, input_shape]
              (verbose L))
       (\<lambda>(t, L'). Inr (L'\<lparr>transform_output := t\<rparr>))"

section \<open>An ideal device and example layers\<close>

text \<open>
  The ideal collaborator: one crossbar whose conductance matrix is the weight tensor,
  flattened to \<open>[out_channels, in_channels * k0 * k1 * k2]\<close> and transposed; the crossbar
  operation reads that crossbar; the device simulation is the exact product; the voltage
  encoding, the tiling and the quantizer change nothing; calibration fits the given map.
\<close>

definition ideal_conductance :: "tensor \<Rightarrow> tensor" where
  "ideal_conductance w =
     transposeT \<lparr>shape = [shape w ! 0, numel (tl (shape w))], vals = vals w\<rparr>"

definition ideal_collab :: "transform \<Rightarrow> collab" where
  "ideal_collab fit =
     \<lparr>quant_methods = [''linear'', ''log''],
      init_crossbar =
        (\<lambda>w ts ub. ([\<lparr>conductance_matrix = ideal_conductance w, tiles_map = zeros [],
                        rows = shape w ! 0, columns = numel (tl (shape w))\<rparr>],
                     (\<lambda>cs f. f (hd cs)))),
      convert_range = (\<lambda>x lo hi new_lo new_hi. x),
      simulate_matmul =
        (\<lambda>u c nl tm cs v r ovf q ub.
           case matmul u (conductance_matrix c) of Inr m \<Rightarrow> m | Inl e \<Rightarrow> zeros []),
      gen_tiles = (\<lambda>u ts ub. (u, zeros [])),
      tile_matmul = (\<lambda>t tm sh g gm cs r ovf q ub. t),
      quantize = (\<lambda>t r ovf q. t),
      naive_tune = (\<lambda>L sh v. Inr (fit, L))\<rparr>"

definition ones :: "nat list \<Rightarrow> tensor" where
  "ones sh = \<lparr>shape = sh, vals = replicate (numel sh) 1\<rparr>"

text \<open>
  Constructor arguments for a source layer with the given channels, kernel, stride,
  padding, weight and bias, and the defaults of \<^verbatim>\<open>__init__\<close> for the rest: no keyword
  arguments, so that \<^verbatim>\<open>nn.Conv3d.__init__\<close> creates a bias of length \<open>out_channels\<close>.
\<close>

definition conv_args ::
  "nat \<Rightarrow> nat \<Rightarrow> nat \<times> nat \<times> nat \<Rightarrow> nat \<times> nat \<times> nat \<Rightarrow> nat \<times> nat \<times> nat
     \<Rightarrow> tensor \<Rightarrow> tensor option \<Rightarrow> ctor_args" where
  "conv_args ic oc k s p w b =
     \<lparr>convolutional_layer =
        Conv3dModule
          \<lparr>src_in_channels = ic, src_out_channels = oc, src_kernel_size = k,
           src_stride = s, src_padding = p,
           src_weight = \<lparr>data = w, requires_grad = True\<rparr>,
           src_bias = map_option (\<lambda>d. \<lparr>data = d, requires_grad = True\<rparr>) b\<rparr>,
      arg_tile_shape = None, arg_max_input_voltage = None, arg_ADC_resolution = None,
      arg_ADC_overflow_rate = Some 0, arg_quant_method = None, arg_use_bindings = True,
      arg_verbose = True, base_bias = Some (zeros [oc])\<rparr>"

text \<open>Patch a layer, then switch it to simulated mode and run it.\<close>

definition run_simulated :: "collab \<Rightarrow> ctor_args \<Rightarrow> tensor \<Rightarrow> error + tensor" where
  "run_simulated X a x =
     bindE (init X a) (\<lambda>L. forward X (L\<lparr>forward_legacy_enabled := False\<rparr>) x)"

definition run_patched :: "collab \<Rightarrow> ctor_args \<Rightarrow> tensor \<Rightarrow> error + tensor" where
  "run_patched X a x = bindE (init X a) (\<lambda>L. forward X L x)"

text \<open>
  The output size of the specification, for one spatial axis:
  \<open>floor((size - kernel + 2 * padding) / stride) + 1\<close>.
\<close>

definition spec_output_size :: "nat \<Rightarrow> nat \<Rightarrow> nat \<Rightarrow> nat \<Rightarrow> int" where
  "spec_output_size sz k p s = (int sz - int k + 2 * int p) div int s + 1"

text \<open>
  Patch a layer, mark it as \<^verbatim>\<open>memtorch.bh.nonideality\<close> does for a non-linear device
  (the attribute \<^verbatim>\<open>non_linear\<close>), switch it to simulated mode and run it.
\<close>

definition run_nonlinear :: "collab \<Rightarrow> ctor_args \<Rightarrow> tensor \<Rightarrow> error + tensor" where
  "run_nonlinear X a x =
     bindE (init X a)
       (\<lambda>L. forward X (L\<lparr>forward_legacy_enabled := False, has_non_linear := True\<rparr>) x)"

text \<open>
  The simulated output before the output transform and the bias: the layer run with the
  identity transform and without bias.
\<close>

definition untransformed :: "collab \<Rightarrow> layer \<Rightarrow> tensor \<Rightarrow> error + tensor" where
  "untransformed X L x = forward_simulated X (L\<lparr>transform_output := Identity, bias := None\<rparr>) x"

text \<open>
  A stand-in for the calibration fit that depends on the shape of the synthetic input
  (scale = batch size, shift = spatial size), and the ideal collaborator with it.
\<close>

definition shape_fit :: "layer \<Rightarrow> nat list \<Rightarrow> bool \<Rightarrow> error + transform \<times> layer" where
  "shape_fit L sh v = Inr (Affine (real (sh ! 0)) (real (sh ! 2)), L)"

definition tuning_collab :: collab where
  "tuning_collab = (ideal_collab Identity)\<lparr>naive_tune := shape_fit\<rparr>"

text \<open>
  The layer that patching yields for one channel, kernel \<open>(1, 1, 1)\<close>, weight 1 and
  bias 5 on the ideal device.
\<close>

definition unit_layer :: layer where
  "unit_layer =
     \<lparr>in_channels = 1, out_channels = 1, kernel_size = (1, 1, 1), stride = (1, 1, 1),
      padding = (0, 0, 0),
      weight = \<lparr>data = ones [1, 1, 1, 1, 1], requires_grad = False\<rparr>,
      bias = Some \<lparr>data = \<lparr>shape = [1], vals = [5]\<rparr>, requires_grad = False\<rparr>,
      tile_shape = None, max_input_voltage = None, ADC_resolution = None,
      ADC_overflow_rate = Some 0, quant_method = None, use_bindings = True,
      verbose = True, forward_legacy_enabled = True,
      crossbars = [\<lparr>conductance_matrix = ideal_conductance (ones [1, 1, 1, 1, 1]),
                     tiles_map = zeros [],
                     rows = shape (ones [1, 1, 1, 1, 1]) ! 0,
                     columns = numel (tl (shape (ones [1, 1, 1, 1, 1])))\<rparr>],
      crossbar_operation = (\<lambda>cs f. f (hd cs)),
      transform_output = Identity, has_non_linear = False, has_simulate = False\<rparr>"

text \<open>The gradient-tracking flag of the layer's bias, when the layer has a bias.\<close>

definition bias_requires_grad :: "layer \<Rightarrow> bool option" where
  "bias_requires_grad L = map_option requires_grad (bias L)"

section \<open>Shapes\<close>

lemma shape_tabulate [simp]: "shape (tabulate sh f) = sh"
  by (simp add: tabulate_def)

lemma shape_zeros [simp]: "shape (zeros sh) = sh"
  by (simp add: zeros_def)

lemma shape_set_slot [simp]: "shape (set_slot out b v) = shape out"
  by (simp add: set_slot_def)

lemma shape_apply_transform [simp]: "shape (apply_transform t x) = shape x"
  by (cases t) simp_all

lemma add_bias_slot_shape: "add_bias_slot out b bv = Inr r \<Longrightarrow> shape r = shape out"
  by (auto simp: add_bias_slot_def Let_def split: if_splits)

lemma bindE_Inr: "bindE m f = Inr r \<Longrightarrow> \<exists>y. m = Inr y \<and> f y = Inr r"
  by (cases m) simp_all

lemma batch_step_shape: "batch_step X L input od b out = Inr r \<Longrightarrow> shape r = shape out"
  unfolding batch_step_def
  by (auto dest!: bindE_Inr split: if_splits)

lemma batch_loop_shape: "batch_loop X L input od bs out = Inr r \<Longrightarrow> shape r = shape out"
proof (induction bs arbitrary: out)
  case Nil
  then show ?case by simp
next
  case (Cons b bs)
  from Cons.prems obtain mid where m: "batch_step X L input od b out = Inr mid"
    and r: "batch_loop X L input od bs mid = Inr r"
    by (auto dest!: bindE_Inr)
  from Cons.IH [OF r] batch_step_shape [OF m] show ?case by simp
qed

text \<open>What a simulated call that returns has gone through.\<close>

lemma forward_simulated_Inr:
  assumes "forward_simulated X L x = Inr out"
  shows "\<exists>od o1. output_dim L x = Inr od \<and> \<not> list_ex (\<lambda>d. d < 0) od
            \<and> batch_loop X L x (map nat od) [0..<shape x ! 0]
                  (zeros (shape x ! 0 # out_channels L # map nat od)) = Inr o1
            \<and> shape out = shape x ! 0 # out_channels L # map nat od"
proof -
  from assms obtain od where od: "output_dim L x = Inr od"
    and rest: "(if list_ex (\<lambda>d. d < 0) od then Inl RuntimeError
       else
         bindE (batch_loop X L x (map nat od) [0..<shape x ! 0]
                  (zeros (shape x ! 0 # out_channels L # map nat od)))
           (\<lambda>out.
              case bias L of
                None \<Rightarrow> Inr (apply_transform (transform_output L) out)
              | Some b \<Rightarrow>
                  if shape x ! 0 = 0 then Inl UnboundLocalError
                  else add_bias_slot (apply_transform (transform_output L) out)
                         (shape x ! 0 - 1) (data b))) = Inr out"
    unfolding forward_simulated_def by (auto dest!: bindE_Inr)
  from rest have nn: "\<not> list_ex (\<lambda>d. d < 0) od" by (auto split: if_splits)
  with rest obtain o1 where l: "batch_loop X L x (map nat od) [0..<shape x ! 0]
                  (zeros (shape x ! 0 # out_channels L # map nat od)) = Inr o1"
    and fin: "(case bias L of
                None \<Rightarrow> Inr (apply_transform (transform_output L) o1)
              | Some b \<Rightarrow>
                  if shape x ! 0 = 0 then Inl UnboundLocalError
                  else add_bias_slot (apply_transform (transform_output L) o1)
                         (shape x ! 0 - 1) (data b)) = Inr out"
    by (auto dest!: bindE_Inr)
  from fin have "shape out = shape o1"
    by (auto split: option.splits if_splits dest: add_bias_slot_shape)
  with batch_loop_shape [OF l] od nn l show ?thesis by simp
qed

lemma output_dim_Inr:
  assumes "output_dim L x = Inr od"
    and "kernel_size L = (k0, k1, k2)" "stride L = (s0, s1, s2)" "padding L = (p0, p1, p2)"
  shows "5 \<le> length (shape x) \<and> 0 < s0 \<and> 0 < s1 \<and> 0 < s2 \<and>
     od = [py_int_truediv (int (shape x ! 2) - int k0 + 2 * int p0) (int s0) + 1,
           py_int_truediv (int (shape x ! 3) - int k1 + 2 * int p1) (int s1) + 1,
           py_int_truediv (int (shape x ! 4) - int k2 + 2 * int p2) (int s2) + 1]"
  using assms unfolding output_dim_def by (auto split: if_splits)

lemma truediv_floor: "0 \<le> a \<Longrightarrow> 0 < b \<Longrightarrow> py_int_truediv a b = a div b"
  by (cases "a = 0") (simp_all add: py_int_truediv_def)

lemma truediv_nonneg: "0 \<le> a \<Longrightarrow> 0 < b \<Longrightarrow> 0 \<le> py_int_truediv a b"
  by (simp add: truediv_floor pos_imp_zdiv_nonneg_iff)

section \<open>Patching the example layers\<close>

lemma init_conv_args:
  "init (ideal_collab fit) (conv_args ic oc k s p w (Some b)) =
     Inr \<lparr>in_channels = ic, out_channels = oc, kernel_size = k, stride = s, padding = p,
           weight = \<lparr>data = w, requires_grad = False\<rparr>,
           bias = Some \<lparr>data = b, requires_grad = False\<rparr>,
           tile_shape = None, max_input_voltage = None, ADC_resolution = None,
           ADC_overflow_rate = Some 0, quant_method = None, use_bindings = True,
           verbose = True, forward_legacy_enabled = True,
           crossbars = [\<lparr>conductance_matrix = ideal_conductance w, tiles_map = zeros [],
                          rows = shape w ! 0, columns = numel (tl (shape w))\<rparr>],
           crossbar_operation = (\<lambda>cs f. f (hd cs)),
           transform_output = Identity, has_non_linear = False, has_simulate = False\<rparr>"
  by (simp add: init_def conv_args_def ideal_collab_def)

section \<open>The empty batch\<close>

text \<open>
  Claim C10. In simulated mode, a 5-D input of batch size 0 and a bias that is not
  \<open>None\<close>: the call raises. When the strides are positive and no output size is
  negative, the error is the unbound loop variable \<^verbatim>\<open>batch\<close> at the bias addition; a
  zero stride or a negative output size raises earlier. No output tensor is returned.
\<close>

theorem empty_batch_with_bias_fails:
  assumes "\<not> forward_legacy_enabled L" and "shape x = [0, c, d, h, w]" and "bias L = Some b"
    and "kernel_size L = (k0, k1, k2)" and "stride L = (s0, s1, s2)"
    and "padding L = (p0, p1, p2)"
  shows "forward X L x =
           Inl (if s0 = 0 \<or> s1 = 0 \<or> s2 = 0 then ZeroDivisionError
                else if list_ex (\<lambda>v. v < 0)
                          [py_int_truediv (int d - int k0 + 2 * int p0) (int s0) + 1,
                           py_int_truediv (int h - int k1 + 2 * int p1) (int s1) + 1,
                           py_int_truediv (int w - int k2 + 2 * int p2) (int s2) + 1]
                     then RuntimeError
                else UnboundLocalError)"
  using assms
  by (simp add: forward_def forward_simulated_def output_dim_def)

theorem empty_batch_with_bias_fails_witness:
  "run_simulated (ideal_collab Identity)
     (conv_args 1 1 (2, 2, 2) (1, 1, 1) (0, 0, 0) (ones [1, 1, 2, 2, 2])
        (Some \<lparr>shape = [1], vals = [5]\<rparr>))
     (zeros [0, 1, 3, 3, 3]) = Inl UnboundLocalError"
  unfolding run_simulated_def init_conv_args bindE.simps
  by (subst empty_batch_with_bias_fails [where c = 1 and d = 3 and h = 3 and w = 3
        and ?k0.0 = 2 and ?k1.0 = 2 and ?k2.0 = 2 and ?s0.0 = 1 and ?s1.0 = 1 and ?s2.0 = 1
        and ?p0.0 = 0 and ?p1.0 = 0 and ?p2.0 = 0])
     (simp_all add: py_int_truediv_def)

section \<open>Construction and its checks\<close>

text \<open>
  Claim C9 (gradient tracking at construction). The source layer below has no bias and
  the constructor is called without keyword arguments, so the base class creates a bias
  parameter. Lines 116 and 117 of the source switch its gradient tracking off only under
  \<^verbatim>\<open>if convolutional_layer.bias is not None\<close>, a test of the source layer's bias: the
  bias of the patched layer keeps \<^verbatim>\<open>requires_grad = True\<close>, while line 115 freezes the
  weight unconditionally.
\<close>

theorem bias_of_bias_free_source_stays_trainable:
  "map_sum id bias_requires_grad
     (init (ideal_collab Identity)
        (conv_args 1 1 (1, 1, 1) (1, 1, 1) (0, 0, 0) (ones [1, 1, 1, 1, 1]) None))
   = Inr (Some True)"
  by (simp add: init_def conv_args_def ideal_collab_def bias_requires_grad_def)

text \<open>
  The rest of what the claim says holds: the weight is always frozen, the bias is frozen
  when the source layer has one, and \<^verbatim>\<open>tune\<close> itself changes nothing but the output
  transform of the layer that \<^verbatim>\<open>naive_tune\<close> leaves. \<^verbatim>\<open>forward\<close> assigns to no attribute
  of the layer and updates in place only the tensor \<^verbatim>\<open>out\<close> that it allocates, so in the
  model it is a function of the layer that returns the output alone.
\<close>

lemma init_freezes:
  assumes "init X a = Inr L"
  shows "\<not> requires_grad (weight L)
         \<and> (\<forall>cl sb. convolutional_layer a = Conv3dModule cl \<longrightarrow> src_bias cl = Some sb
               \<longrightarrow> bias_requires_grad L = Some False)"
proof (cases "convolutional_layer a")
  case OtherModule
  with assms show ?thesis by (simp add: init_def)
next
  case (Conv3dModule cl)
  show ?thesis
  proof (cases "src_bias cl")
    case None
    with Conv3dModule assms show ?thesis
      by (auto simp add: init_def Let_def bias_requires_grad_def split: if_splits)
  next
    case (Some sb)
    with Conv3dModule assms show ?thesis
      by (cases "base_bias a")
         (auto simp add: init_def Let_def bias_requires_grad_def split: if_splits)
  qed
qed

lemma tune_replaces_transform_only:
  assumes "tune X L bs n = Inr L'"
  shows "\<exists>t L0. naive_tune X L [bs, in_channels L, n, n, n] (verbose L) = Inr (t, L0)
           \<and> weight L' = weight L0 \<and> bias L' = bias L0 \<and> crossbars L' = crossbars L0"
proof -
  from assms obtain p where
    n: "naive_tune X L [bs, in_channels L, n, n, n] (verbose L) = Inr p"
    by (cases "naive_tune X L [bs, in_channels L, n, n, n] (verbose L)")
       (simp_all only: tune_def bindE.simps sum.distinct)
  obtain t L0 where p: "p = (t, L0)" by (cases p)
  from assms have l: "L' = L0\<lparr>transform_output := t\<rparr>"
    unfolding tune_def n p bindE.simps prod.case sum.inject by (rule sym)
  have "weight L' = weight L0 \<and> bias L' = bias L0 \<and> crossbars L' = crossbars L0"
    unfolding l by simp
  with n [unfolded p] show ?thesis by blast
qed

text \<open>
  Claim C6, as stated, fails: \<^verbatim>\<open>quant_method = "foo"\<close> with \<^verbatim>\<open>ADC_resolution = 8\<close> is
  accepted, and the layer is built with \<^verbatim>\<open>quant_method = None\<close>.
\<close>

theorem malformed_quant_method_accepted:
  "map_sum id quant_method
     (init (ideal_collab Identity)
        ((conv_args 1 1 (1, 1, 1) (1, 1, 1) (0, 0, 0) (ones [1, 1, 1, 1, 1]) None)
           \<lparr>arg_quant_method := Some ''foo'', arg_ADC_resolution := Some (PyInt 8)\<rparr>))
   = Inr None"
  by (simp add: init_def conv_args_def ideal_collab_def)

text \<open>
  Claim C6, amended. A \<^verbatim>\<open>quant_method\<close> that is neither \<open>None\<close> nor a supported
  identifier is not rejected as such. The two ADC assertions apply to it as to any value
  other than \<open>None\<close>: construction aborts when \<^verbatim>\<open>ADC_resolution\<close> is not a positive
  \<^verbatim>\<open>int\<close> or \<^verbatim>\<open>ADC_overflow_rate\<close> is \<open>None\<close>. When both pass, construction completes and
  the layer stores \<^verbatim>\<open>quant_method = None\<close>.
\<close>

theorem malformed_quant_method_stored_as_None:
  assumes "arg_quant_method a = Some q" and "q \<notin> set (quant_methods X)"
    and "convolutional_layer a = Conv3dModule cl"
  shows "(\<not> valid_ADC_resolution (arg_ADC_resolution a) \<longrightarrow> init X a = Inl AssertionError)
       \<and> (arg_ADC_overflow_rate a = None \<longrightarrow> init X a = Inl AssertionError)
       \<and> (valid_ADC_resolution (arg_ADC_resolution a) \<and> arg_ADC_overflow_rate a \<noteq> None
            \<and> (src_bias cl = None \<or> base_bias a \<noteq> None)
          \<longrightarrow> (\<exists>L. init X a = Inr L \<and> quant_method L = None))"
  using assms
  by (auto simp: init_def Let_def image_iff split: option.splits)

theorem malformed_quant_method_stored_as_None_witness:
  "map_sum id quant_method
     (init (ideal_collab Identity)
        ((conv_args 1 1 (1, 1, 1) (1, 1, 1) (0, 0, 0) (ones [1, 1, 1, 1, 1]) None)
           \<lparr>arg_quant_method := Some ''cubic'', arg_ADC_resolution := Some (PyInt 4)\<rparr>))
   = Inr None
   \<and> init (ideal_collab Identity)
        ((conv_args 1 1 (1, 1, 1) (1, 1, 1) (0, 0, 0) (ones [1, 1, 1, 1, 1]) None)
           \<lparr>arg_quant_method := Some ''cubic''\<rparr>) = Inl AssertionError"
proof -
  let ?X = "ideal_collab Identity"
  let ?a = "conv_args 1 1 (1, 1, 1) (1, 1, 1) (0, 0, 0) (ones [1, 1, 1, 1, 1]) None"
  let ?cl = "\<lparr>src_in_channels = 1, src_out_channels = 1, src_kernel_size = (1, 1, 1),
           src_stride = (1, 1, 1), src_padding = (0, 0, 0),
           src_weight = \<lparr>data = ones [1, 1, 1, 1, 1], requires_grad = True\<rparr>,
           src_bias = None\<rparr>"
  have q: "''cubic'' \<notin> set (quant_methods ?X)" by (simp add: ideal_collab_def)
  have 1: "\<exists>L. init ?X (?a\<lparr>arg_quant_method := Some ''cubic'', arg_ADC_resolution := Some (PyInt 4)\<rparr>) = Inr L
              \<and> quant_method L = None"
    using malformed_quant_method_stored_as_None
      [of "?a\<lparr>arg_quant_method := Some ''cubic'', arg_ADC_resolution := Some (PyInt 4)\<rparr>"
          "''cubic''" ?X ?cl] q
    by (simp add: conv_args_def)
  have 2: "init ?X (?a\<lparr>arg_quant_method := Some ''cubic''\<rparr>) = Inl AssertionError"
    using malformed_quant_method_stored_as_None
      [of "?a\<lparr>arg_quant_method := Some ''cubic''\<rparr>" "''cubic''" ?X ?cl] q
    by (simp add: conv_args_def)
  from 1 2 show ?thesis by auto
qed

text \<open>
  Claim C7, as stated, fails: the constructor accepts \<^verbatim>\<open>max_input_voltage = -1.0\<close> and
  stores it.
\<close>

theorem nonpositive_voltage_accepted_by_constructor:
  "map_sum id max_input_voltage
     (init (ideal_collab Identity)
        ((conv_args 1 1 (1, 1, 1) (1, 1, 1) (0, 0, 0) (ones [1, 1, 1, 1, 1]) None)
           \<lparr>arg_max_input_voltage := Some (PyFloat (- 1))\<rparr>))
   = Inr (Some (PyFloat (- 1)))"
  by (simp add: init_def conv_args_def ideal_collab_def)

lemma init_voltage_update:
  "init X (a\<lparr>arg_max_input_voltage := mv\<rparr>) = map_sum id (max_input_voltage_update (\<lambda>_. mv)) (init X a)"
proof (cases "convolutional_layer a")
  case OtherModule
  then show ?thesis by (simp add: init_def)
next
  case (Conv3dModule cl)
  show ?thesis
  proof (cases "src_bias cl")
    case None
    with Conv3dModule show ?thesis by (simp add: init_def Let_def)
  next
    case (Some sb)
    with Conv3dModule show ?thesis by (cases "base_bias a") (simp_all add: init_def Let_def)
  qed
qed

lemma pad_input_ok:
  "5 \<le> length (shape x) \<Longrightarrow> \<exists>t. pad_input L x b = Inr t"
  by (cases "padding L") (auto simp add: pad_input_def pad3_def select0_def Let_def)

lemma batch_loop_bad_voltage:
  assumes "max_input_voltage L = Some v" and "\<not> (is_int_or_float v \<and> 0 < num_val v)"
    and "5 \<le> length (shape x)"
  shows "batch_loop X L x od (b # bs) out = Inl AssertionError"
proof -
  from pad_input_ok [OF assms(3)] obtain t where t: "pad_input L x b = Inr t" by blast
  from assms(1,2) have "encode_input X L t = Inl AssertionError"
    by (auto simp: encode_input_def)
  with t show ?thesis by (simp add: batch_step_def)
qed

text \<open>
  Claim C7, amended. The constructor does not look at \<^verbatim>\<open>max_input_voltage\<close>: whatever
  value is passed, construction succeeds or fails alike and the value is stored as it is.
  The check is the assertion inside the batch loop of the simulated mode: a simulated
  call on a non-empty batch whose output sizes were computed and are not negative raises
  \<^verbatim>\<open>AssertionError\<close> when the stored value is not a positive \<^verbatim>\<open>int\<close> or \<^verbatim>\<open>float\<close>.
\<close>

theorem max_input_voltage_checked_in_forward:
  "(init X a = Inr L \<longrightarrow>
      init X (a\<lparr>arg_max_input_voltage := mv\<rparr>) = Inr (L\<lparr>max_input_voltage := mv\<rparr>))
   \<and> (\<not> forward_legacy_enabled L' \<and> max_input_voltage L' = Some v
        \<and> \<not> (is_int_or_float v \<and> 0 < num_val v) \<and> 0 < shape x ! 0
        \<and> output_dim L' x = Inr od \<and> \<not> list_ex (\<lambda>d. d < 0) od
      \<longrightarrow> forward X L' x = Inl AssertionError)"
proof (intro conjI impI)
  assume "init X a = Inr L"
  then show "init X (a\<lparr>arg_max_input_voltage := mv\<rparr>) = Inr (L\<lparr>max_input_voltage := mv\<rparr>)"
    by (simp add: init_voltage_update)
next
  assume h: "\<not> forward_legacy_enabled L' \<and> max_input_voltage L' = Some v
        \<and> \<not> (is_int_or_float v \<and> 0 < num_val v) \<and> 0 < shape x ! 0
        \<and> output_dim L' x = Inr od \<and> \<not> list_ex (\<lambda>d. d < 0) od"
  obtain k0 k1 k2 s0 s1 s2 p0 p1 p2 where
    "kernel_size L' = (k0, k1, k2)" "stride L' = (s0, s1, s2)" "padding L' = (p0, p1, p2)"
    by (metis prod_cases3)
  with h output_dim_Inr [of L' x od k0 k1 k2 s0 s1 s2 p0 p1 p2]
  have r: "5 \<le> length (shape x)" by simp
  from h have "[0..<shape x ! 0] = 0 # [Suc 0..<shape x ! 0]"
    by (simp add: upt_conv_Cons)
  with h r batch_loop_bad_voltage [of L' v x X _ 0 "[Suc 0..<shape x ! 0]"]
  show "forward X L' x = Inl AssertionError"
    by (simp add: forward_def forward_simulated_def)
qed

theorem max_input_voltage_checked_in_forward_witness:
  "init (ideal_collab Identity)
     ((conv_args 1 1 (1, 1, 1) (1, 1, 1) (0, 0, 0) (ones [1, 1, 1, 1, 1])
         (Some \<lparr>shape = [1], vals = [5]\<rparr>)) \<lparr>arg_max_input_voltage := Some (PyInt 0)\<rparr>)
   = Inr \<lparr>in_channels = 1, out_channels = 1, kernel_size = (1, 1, 1), stride = (1, 1, 1),
           padding = (0, 0, 0),
           weight = \<lparr>data = ones [1, 1, 1, 1, 1], requires_grad = False\<rparr>,
           bias = Some \<lparr>data = \<lparr>shape = [1], vals = [5]\<rparr>, requires_grad = False\<rparr>,
           tile_shape = None, max_input_voltage = Some (PyInt 0), ADC_resolution = None,
           ADC_overflow_rate = Some 0, quant_method = None, use_bindings = True,
           verbose = True, forward_legacy_enabled = True,
           crossbars = [\<lparr>conductance_matrix = ideal_conductance (ones [1, 1, 1, 1, 1]),
                          tiles_map = zeros [],
                          rows = shape (ones [1, 1, 1, 1, 1]) ! 0,
                          columns = numel (tl (shape (ones [1, 1, 1, 1, 1])))\<rparr>],
           crossbar_operation = (\<lambda>cs f. f (hd cs)),
           transform_output = Identity, has_non_linear = False, has_simulate = False\<rparr>
   \<and> run_simulated (ideal_collab Identity)
       ((conv_args 1 1 (1, 1, 1) (1, 1, 1) (0, 0, 0) (ones [1, 1, 1, 1, 1])
           (Some \<lparr>shape = [1], vals = [5]\<rparr>)) \<lparr>arg_max_input_voltage := Some (PyInt 0)\<rparr>)
       (ones [1, 1, 1, 1, 1]) = Inl AssertionError"
proof -
  let ?X = "ideal_collab Identity"
  let ?a = "conv_args 1 1 (1, 1, 1) (1, 1, 1) (0, 0, 0) (ones [1, 1, 1, 1, 1])
              (Some \<lparr>shape = [1], vals = [5]\<rparr>)"
  let ?L = "\<lparr>in_channels = 1, out_channels = 1, kernel_size = (1, 1, 1), stride = (1, 1, 1),
           padding = (0, 0, 0),
           weight = \<lparr>data = ones [1, 1, 1, 1, 1], requires_grad = False\<rparr>,
           bias = Some \<lparr>data = \<lparr>shape = [1], vals = [5]\<rparr>, requires_grad = False\<rparr>,
           tile_shape = None, max_input_voltage = None, ADC_resolution = None,
           ADC_overflow_rate = Some 0, quant_method = None, use_bindings = True,
           verbose = True, forward_legacy_enabled = True,
           crossbars = [\<lparr>conductance_matrix = ideal_conductance (ones [1, 1, 1, 1, 1]),
                          tiles_map = zeros [],
                          rows = shape (ones [1, 1, 1, 1, 1]) ! 0,
                          columns = numel (tl (shape (ones [1, 1, 1, 1, 1])))\<rparr>],
           crossbar_operation = (\<lambda>cs f. f (hd cs)),
           transform_output = Identity, has_non_linear = False, has_simulate = False\<rparr>"
  let ?L' = "?L\<lparr>max_input_voltage := Some (PyInt 0), forward_legacy_enabled := False\<rparr>"
  note inst = max_input_voltage_checked_in_forward
    [of ?X ?a ?L "Some (PyInt 0)" ?L' "PyInt 0" "ones [1, 1, 1, 1, 1]" "[1, 1, 1]"]
  have i: "init ?X ?a = Inr ?L" by (rule init_conv_args)
  have od: "output_dim ?L' (ones [1, 1, 1, 1, 1]) = Inr [1, 1, 1]"
    by (simp add: output_dim_def ones_def py_int_truediv_def)
  from inst i have 1: "init ?X (?a\<lparr>arg_max_input_voltage := Some (PyInt 0)\<rparr>)
      = Inr (?L\<lparr>max_input_voltage := Some (PyInt 0)\<rparr>)" by blast
  from inst od have 2: "forward ?X ?L' (ones [1, 1, 1, 1, 1]) = Inl AssertionError"
    by (simp add: ones_def)
  from 1 2 show ?thesis by (simp add: run_simulated_def)
qed

section \<open>The simulated mode on concrete inputs\<close>

text \<open>
  Claim C1 (the bias in simulated mode). Batch size 2, one channel, kernel \<open>(2, 1, 1)\<close>,
  weights and input all ones, bias 5, ideal device. Each window sums to 2, so with the
  bias on every batch element the output would be \<open>[7, 7]\<close>. The source adds the bias
  to \<^verbatim>\<open>out[batch]\<close> after the loop, that is to the last batch element only: the first
  element is left at 2.
\<close>

theorem bias_added_to_last_batch_element_only:
  "run_simulated (ideal_collab Identity)
     (conv_args 1 1 (2, 1, 1) (1, 1, 1) (0, 0, 0) (ones [1, 1, 2, 1, 1])
        (Some \<lparr>shape = [1], vals = [5]\<rparr>))
     (ones [2, 1, 2, 1, 1])
   = Inr \<lparr>shape = [2, 1, 1, 1, 1], vals = [2, 7]\<rparr>"
  by code_simp

text \<open>
  Claim C2 (the result is written to the output in every branch). The same layer
  without bias, batch size 1. In the plain dense branch the output is 2. With the
  attribute \<^verbatim>\<open>non_linear\<close> set, the device simulation computes the same product, but the
  assignment \<^verbatim>\<open>out[batch] = out_.view(...)\<close> belongs to the other branch: the output
  stays at the zeros it was allocated with.
\<close>

theorem nonlinear_result_discarded:
  "run_nonlinear (ideal_collab Identity)
     ((conv_args 1 1 (2, 1, 1) (1, 1, 1) (0, 0, 0) (ones [1, 1, 2, 1, 1]) None)
        \<lparr>base_bias := None\<rparr>)
     (ones [1, 1, 2, 1, 1])
   = Inr \<lparr>shape = [1, 1, 1, 1, 1], vals = [0]\<rparr>
   \<and> run_simulated (ideal_collab Identity)
     ((conv_args 1 1 (2, 1, 1) (1, 1, 1) (0, 0, 0) (ones [1, 1, 2, 1, 1]) None)
        \<lparr>base_bias := None\<rparr>)
     (ones [1, 1, 2, 1, 1])
   = Inr \<lparr>shape = [1, 1, 1, 1, 1], vals = [2]\<rparr>"
  by code_simp

text \<open>In the non-linear branch an iteration that completes returns \<open>out\<close> as it got it.\<close>

lemma nonlinear_step_leaves_output:
  assumes "has_non_linear L" and "batch_step X L input od b out = Inr r"
  shows "r = out"
  using assms unfolding batch_step_def by (auto dest!: bindE_Inr)

text \<open>
  Claim C3 (the simulated mode equals the dense convolution on an ideal device). Batch
  size 2, kernel \<open>(1, 1, 1)\<close>, weight 4, bias 5, input \<open>[2, 3]\<close>, no tiling, no
  quantization, no voltage bound. The dense convolution gives \<open>[13, 17]\<close>; the simulated
  mode gives \<open>[8, 17]\<close>, the bias missing from the first batch element. All values are
  small integers, which floating point represents exactly.
\<close>

theorem simulated_differs_from_dense:
  "run_simulated (ideal_collab Identity)
     (conv_args 1 1 (1, 1, 1) (1, 1, 1) (0, 0, 0) \<lparr>shape = [1, 1, 1, 1, 1], vals = [4]\<rparr>
        (Some \<lparr>shape = [1], vals = [5]\<rparr>))
     \<lparr>shape = [2, 1, 1, 1, 1], vals = [2, 3]\<rparr>
   = Inr \<lparr>shape = [2, 1, 1, 1, 1], vals = [8, 17]\<rparr>
   \<and> run_patched (ideal_collab Identity)
     (conv_args 1 1 (1, 1, 1) (1, 1, 1) (0, 0, 0) \<lparr>shape = [1, 1, 1, 1, 1], vals = [4]\<rparr>
        (Some \<lparr>shape = [1], vals = [5]\<rparr>))
     \<lparr>shape = [2, 1, 1, 1, 1], vals = [2, 3]\<rparr>
   = Inr \<lparr>shape = [2, 1, 1, 1, 1], vals = [13, 17]\<rparr>"
  by code_simp

text \<open>
  With a single batch element the two modes agree, here on two input channels, kernel
  \<open>(2, 1, 1)\<close> and padding \<open>(1, 0, 0)\<close>: both give
  \<open>[0*4 + 2*6 + 0*1 + 7*3 + 5, 2*4 + 3*6 + 7*1 + 9*3 + 5, 3*4 + 0*6 + 9*1 + 0*3 + 5]\<close>.
\<close>

lemma single_batch_agrees_with_dense:
  "run_simulated (ideal_collab Identity)
     (conv_args 2 1 (2, 1, 1) (1, 1, 1) (1, 0, 0) \<lparr>shape = [1, 2, 2, 1, 1], vals = [4, 6, 1, 3]\<rparr>
        (Some \<lparr>shape = [1], vals = [5]\<rparr>))
     \<lparr>shape = [1, 2, 2, 1, 1], vals = [2, 3, 7, 9]\<rparr>
   = Inr \<lparr>shape = [1, 1, 3, 1, 1], vals = [38, 65, 26]\<rparr>
   \<and> run_patched (ideal_collab Identity)
     (conv_args 2 1 (2, 1, 1) (1, 1, 1) (1, 0, 0) \<lparr>shape = [1, 2, 2, 1, 1], vals = [4, 6, 1, 3]\<rparr>
        (Some \<lparr>shape = [1], vals = [5]\<rparr>))
     \<lparr>shape = [1, 2, 2, 1, 1], vals = [2, 3, 7, 9]\<rparr>
   = Inr \<lparr>shape = [1, 1, 3, 1, 1], vals = [38, 65, 26]\<rparr>"
  by code_simp


section \<open>Output sizes\<close>

text \<open>What an iteration of the batch loop that completes says about the input.\<close>

lemma unfold_Inr:
  assumes "unfold ax sz st t = Inr u"
  shows "ax < length (shape t) \<and> sz \<le> shape t ! ax
         \<and> shape u = (shape t)[ax := (shape t ! ax - sz) div st + 1] @ [sz]"
  using assms by (auto simp: unfold_def split: if_splits)

lemma permute_Inr:
  assumes "permute dims t = Inr u"
  shows "length (shape t) = length dims"
proof -
  from assms have "sort dims = [0..<length (shape t)]"
    by (auto simp: permute_def split: if_splits)
  then have "length (sort dims) = length [0..<length (shape t)]" by simp
  then show ?thesis by simp
qed

lemma unfold_input_Inr:
  assumes "unfold_input L t = Inr u" and "kernel_size L = (k0, k1, k2)"
  shows "length (shape t) = 4 \<and> k0 \<le> shape t ! 1 \<and> k1 \<le> shape t ! 2 \<and> k2 \<le> shape t ! 3"
proof -
  obtain s0 s1 s2 where s: "stride L = (s0, s1, s2)" by (metis prod_cases3)
  from assms s obtain u1 u2 u3 p where
    1: "unfold 1 k0 s0 t = Inr u1" and 2: "unfold 2 k1 s1 u1 = Inr u2"
    and 3: "unfold 3 k2 s2 u2 = Inr u3" and 4: "permute [1, 2, 3, 0, 4, 5, 6] u3 = Inr p"
    unfolding unfold_input_def by (auto dest!: bindE_Inr)
  note a = unfold_Inr [OF 1] and b = unfold_Inr [OF 2] and c = unfold_Inr [OF 3]
  from permute_Inr [OF 4] have "length (shape u3) = 7" by simp
  with a b c have len: "length (shape t) = 4" by simp
  from a have k0: "k0 \<le> shape t ! 1" by simp
  from a len have u1: "shape u1 ! 2 = shape t ! 2" "shape u1 ! 3 = shape t ! 3"
    "length (shape u1) = 5"
    by (simp_all add: nth_append)
  from b u1 have k1: "k1 \<le> shape t ! 2" by simp
  from b u1 have "shape u2 ! 3 = shape t ! 3" by (simp add: nth_append)
  with c have k2: "k2 \<le> shape t ! 3" by simp
  from len k0 k1 k2 show ?thesis by simp
qed

lemma pad3_shape:
  assumes "pad3 t (p0, p1, p2) = Inr u" and "length (shape t) = 4"
  shows "shape u = [shape t ! 0, shape t ! 1 + 2 * p0, shape t ! 2 + 2 * p1, shape t ! 3 + 2 * p2]"
proof -
  from assms(2) obtain a b c d where sh: "shape t = [a, b, c, d]"
    by (auto simp: length_Suc_conv eval_nat_numeral)
  with assms(1) show ?thesis
    by (auto simp: pad3_def Let_def eval_nat_numeral)
qed

lemma pad3_length:
  assumes "pad3 t p = Inr u"
  shows "length (shape u) = length (shape t)"
  using assms by (cases p) (auto simp: pad3_def Let_def split: if_splits)

lemma pad_input_length:
  assumes "pad_input L x b = Inr t"
  shows "length (shape t) = length (shape x) - 1"
  using assms
  by (auto simp: pad_input_def select0_def Let_def split: if_splits dest!: pad3_length)

lemma pad_input_shape:
  assumes "pad_input L x b = Inr t" and "padding L = (p0, p1, p2)" and "length (shape x) = 5"
  shows "shape t = [shape x ! 1, shape x ! 2 + 2 * p0, shape x ! 3 + 2 * p1, shape x ! 4 + 2 * p2]"
proof -
  from assms(3) obtain n a b' c d where sh: "shape x = [n, a, b', c, d]"
    by (auto simp: length_Suc_conv eval_nat_numeral)
  have s0: "shape (select0 x b) = [a, b', c, d]" by (simp add: select0_def Let_def sh)
  show ?thesis
  proof (cases "padding L = (0, 0, 0)")
    case True
    with assms(1,2) s0 sh show ?thesis by (auto simp: pad_input_def)
  next
    case False
    with assms(1,2) have "pad3 (select0 x b) (p0, p1, p2) = Inr t" by (auto simp: pad_input_def)
    from pad3_shape [OF this] s0 sh show ?thesis by simp
  qed
qed

lemma encode_input_shape:
  assumes "encode_input X L t = Inr u"
    and "\<And>v lo hi a b. shape (convert_range X v lo hi a b) = shape v"
  shows "shape u = shape t"
  using assms by (auto simp: encode_input_def split: option.splits if_splits list.splits)

lemma batch_step_fits:
  assumes "batch_step X L x od b out = Inr r"
    and "\<And>v lo hi a b. shape (convert_range X v lo hi a b) = shape v"
    and "kernel_size L = (k0, k1, k2)" and "padding L = (p0, p1, p2)"
    and "5 \<le> length (shape x)"
  shows "k0 \<le> shape x ! 2 + 2 * p0 \<and> k1 \<le> shape x ! 3 + 2 * p1 \<and> k2 \<le> shape x ! 4 + 2 * p2"
proof -
  from assms(1) obtain t e u where
    1: "pad_input L x b = Inr t" and 2: "encode_input X L t = Inr e"
    and 3: "unfold_input L e = Inr u"
    unfolding batch_step_def by (blast dest: bindE_Inr)
  from encode_input_shape [OF 2 assms(2)] have se: "shape e = shape t" .
  from unfold_input_Inr [OF 3 assms(3)] se
  have u: "length (shape t) = 4" "k0 \<le> shape t ! 1" "k1 \<le> shape t ! 2" "k2 \<le> shape t ! 3"
    by simp_all
  from pad_input_length [OF 1] u(1) assms(5) have "length (shape x) = 5" by simp
  from pad_input_shape [OF 1 assms(4) this] u show ?thesis by simp
qed

lemma axis_size:
  assumes "k \<le> sz + 2 * p" and "0 < s"
  shows "int (nat (py_int_truediv (int sz - int k + 2 * int p) (int s) + 1))
           = spec_output_size sz k p s"
proof -
  from assms(1) have a: "0 \<le> int sz - int k + 2 * int p" by simp
  from assms(2) have b: "0 < int s" by simp
  from truediv_floor [OF a b] truediv_nonneg [OF a b] show ?thesis
    by (simp add: spec_output_size_def)
qed

text \<open>
  Claim C4, as stated, fails: batch size 0, no bias, input size 1, kernel 2, stride 2 and
  padding 0 on the first spatial axis. The source computes \<^verbatim>\<open>int(-1 / 2) + 1 = 1\<close>, since
  \<^verbatim>\<open>int\<close> truncates toward zero; the specified value is \<open>floor(-1 / 2) + 1 = 0\<close>. The loop
  does not run, and the call returns an output of shape \<open>[0, 1, 1, 1, 1]\<close>.
\<close>

theorem empty_batch_truncated_size:
  "run_simulated (ideal_collab Identity)
     ((conv_args 1 1 (2, 1, 1) (2, 1, 1) (0, 0, 0) (ones [1, 1, 2, 1, 1]) None)
        \<lparr>base_bias := None\<rparr>)
     (zeros [0, 1, 1, 1, 1])
   = Inr \<lparr>shape = [0, 1, 1, 1, 1], vals = []\<rparr>
   \<and> spec_output_size 1 2 0 2 = 0"
  by code_simp

text \<open>
  Claim C4, amended. For every call in simulated mode that returns, the output has shape
  \<open>[N, out_channels, D', H', W']\<close>, where each spatial size is computed from its own axis
  as \<^verbatim>\<open>int((size - kernel + 2 * padding) / stride) + 1\<close>, the quotient truncated toward
  zero. On an axis where \<open>kernel \<le> size + 2 * padding\<close> this is the specified
  \<open>floor((size - kernel + 2 * padding) / stride) + 1\<close>; and when the batch is not empty
  (and the voltage encoding keeps the shape of its argument) that holds on all three axes,
  because the call would not have returned otherwise.
\<close>

theorem output_sizes:
  assumes "\<not> forward_legacy_enabled L" and "forward X L x = Inr out"
    and cr: "\<And>v lo hi a b. shape (convert_range X v lo hi a b) = shape v"
    and k: "kernel_size L = (k0, k1, k2)" and s: "stride L = (s0, s1, s2)"
    and p: "padding L = (p0, p1, p2)"
  shows "shape out =
           [shape x ! 0, out_channels L,
            nat (py_int_truediv (int (shape x ! 2) - int k0 + 2 * int p0) (int s0) + 1),
            nat (py_int_truediv (int (shape x ! 3) - int k1 + 2 * int p1) (int s1) + 1),
            nat (py_int_truediv (int (shape x ! 4) - int k2 + 2 * int p2) (int s2) + 1)]
       \<and> (k0 \<le> shape x ! 2 + 2 * p0 \<longrightarrow>
            int (shape out ! 2) = spec_output_size (shape x ! 2) k0 p0 s0)
       \<and> (k1 \<le> shape x ! 3 + 2 * p1 \<longrightarrow>
            int (shape out ! 3) = spec_output_size (shape x ! 3) k1 p1 s1)
       \<and> (k2 \<le> shape x ! 4 + 2 * p2 \<longrightarrow>
            int (shape out ! 4) = spec_output_size (shape x ! 4) k2 p2 s2)
       \<and> (0 < shape x ! 0 \<longrightarrow>
            map int (drop 2 (shape out)) =
              [spec_output_size (shape x ! 2) k0 p0 s0,
               spec_output_size (shape x ! 3) k1 p1 s1,
               spec_output_size (shape x ! 4) k2 p2 s2])"
proof -
  from assms(1,2) have f: "forward_simulated X L x = Inr out" by (simp add: forward_def)
  from forward_simulated_Inr [OF f] obtain od o1 where
    od: "output_dim L x = Inr od"
    and loop: "batch_loop X L x (map nat od) [0..<shape x ! 0]
                  (zeros (shape x ! 0 # out_channels L # map nat od)) = Inr o1"
    and sh: "shape out = shape x ! 0 # out_channels L # map nat od"
    by blast
  from output_dim_Inr [OF od k s p] have
    r: "5 \<le> length (shape x)" and pos: "0 < s0" "0 < s1" "0 < s2"
    and odv: "od = [py_int_truediv (int (shape x ! 2) - int k0 + 2 * int p0) (int s0) + 1,
           py_int_truediv (int (shape x ! 3) - int k1 + 2 * int p1) (int s1) + 1,
           py_int_truediv (int (shape x ! 4) - int k2 + 2 * int p2) (int s2) + 1]"
    by simp_all
  from sh odv have shape_eq: "shape out =
           [shape x ! 0, out_channels L,
            nat (py_int_truediv (int (shape x ! 2) - int k0 + 2 * int p0) (int s0) + 1),
            nat (py_int_truediv (int (shape x ! 3) - int k1 + 2 * int p1) (int s1) + 1),
            nat (py_int_truediv (int (shape x ! 4) - int k2 + 2 * int p2) (int s2) + 1)]"
    by simp
  have a0: "int (shape out ! 2) = spec_output_size (shape x ! 2) k0 p0 s0"
    if "k0 \<le> shape x ! 2 + 2 * p0"
    using axis_size [OF that pos(1)] by (simp add: shape_eq)
  have a1: "int (shape out ! 3) = spec_output_size (shape x ! 3) k1 p1 s1"
    if "k1 \<le> shape x ! 3 + 2 * p1"
    using axis_size [OF that pos(2)] by (simp add: shape_eq)
  have a2: "int (shape out ! 4) = spec_output_size (shape x ! 4) k2 p2 s2"
    if "k2 \<le> shape x ! 4 + 2 * p2"
    using axis_size [OF that pos(3)] by (simp add: shape_eq)
  have all: "map int (drop 2 (shape out)) =
              [spec_output_size (shape x ! 2) k0 p0 s0,
               spec_output_size (shape x ! 3) k1 p1 s1,
               spec_output_size (shape x ! 4) k2 p2 s2]"
    if n: "0 < shape x ! 0"
  proof -
    from n have "[0..<shape x ! 0] = 0 # [Suc 0..<shape x ! 0]" by (simp add: upt_conv_Cons)
    with loop obtain mid where
      "batch_step X L x (map nat od) 0 (zeros (shape x ! 0 # out_channels L # map nat od)) = Inr mid"
      by (auto dest!: bindE_Inr)
    from batch_step_fits [OF this cr k p r]
    have fits: "k0 \<le> shape x ! 2 + 2 * p0" "k1 \<le> shape x ! 3 + 2 * p1"
      "k2 \<le> shape x ! 4 + 2 * p2" by simp_all
    from a0 [OF fits(1)] a1 [OF fits(2)] a2 [OF fits(3)] show ?thesis
      by (simp add: shape_eq)
  qed
  from shape_eq a0 a1 a2 all show ?thesis by blast
qed

lemma strided_padded_example:
  "run_simulated (ideal_collab Identity)
     (conv_args 1 1 (2, 1, 1) (2, 1, 1) (1, 0, 0) (ones [1, 1, 2, 1, 1])
        (Some \<lparr>shape = [1], vals = [5]\<rparr>))
     (ones [1, 1, 3, 1, 1])
   = Inr \<lparr>shape = [1, 1, 2, 1, 1], vals = [6, 7]\<rparr>"
  by code_simp

theorem output_sizes_witness:
  "run_simulated (ideal_collab Identity)
     (conv_args 1 1 (2, 1, 1) (2, 1, 1) (1, 0, 0) (ones [1, 1, 2, 1, 1])
        (Some \<lparr>shape = [1], vals = [5]\<rparr>))
     (ones [1, 1, 3, 1, 1])
   = Inr \<lparr>shape = [1, 1, 2, 1, 1], vals = [6, 7]\<rparr>
   \<and> map int (drop 2 (shape \<lparr>shape = [1, 1, 2, 1, 1], vals = [6, 7]\<rparr>))
       = [spec_output_size 3 2 1 2, spec_output_size 1 1 0 1, spec_output_size 1 1 0 1]"
proof -
  let ?X = "ideal_collab Identity"
  let ?x = "ones [1, 1, 3, 1, 1]"
  let ?out = "\<lparr>shape = [1, 1, 2, 1, 1], vals = [6, 7]\<rparr>"
  obtain L where i: "init ?X (conv_args 1 1 (2, 1, 1) (2, 1, 1) (1, 0, 0) (ones [1, 1, 2, 1, 1])
        (Some \<lparr>shape = [1], vals = [5]\<rparr>)) = Inr L"
    and k: "kernel_size L = (2, 1, 1)" and s: "stride L = (2, 1, 1)"
    and p: "padding L = (1, 0, 0)"
    by (simp add: init_conv_args)
  let ?L = "L\<lparr>forward_legacy_enabled := False\<rparr>"
  from strided_padded_example i have f: "forward ?X ?L ?x = Inr ?out"
    by (simp only: run_simulated_def bindE.simps)
  have cr: "\<And>v lo hi a b. shape (convert_range ?X v lo hi a b) = shape v"
    by (simp add: ideal_collab_def)
  have nl: "\<not> forward_legacy_enabled ?L" by simp
  have k': "kernel_size ?L = (2, 1, 1)" and s': "stride ?L = (2, 1, 1)"
    and p': "padding ?L = (1, 0, 0)"
    by (simp_all add: k s p)
  from output_sizes [OF nl f cr k' s' p']
  have "0 < shape ?x ! 0 \<longrightarrow>
          map int (drop 2 (shape ?out)) =
            [spec_output_size (shape ?x ! 2) 2 1 2, spec_output_size (shape ?x ! 3) 1 0 1,
             spec_output_size (shape ?x ! 4) 1 0 1]"
    by (elim conjE)
  moreover have "0 < shape ?x ! 0" by (simp add: ones_def)
  ultimately have m: "map int (drop 2 (shape ?out)) =
            [spec_output_size (shape ?x ! 2) 2 1 2, spec_output_size (shape ?x ! 3) 1 0 1,
             spec_output_size (shape ?x ! 4) 1 0 1]"
    by (rule mp)
  have sx: "shape ?x ! 2 = 3" "shape ?x ! 3 = 1" "shape ?x ! 4 = 1"
    by (simp_all add: ones_def)
  from m have "map int (drop 2 (shape ?out))
       = [spec_output_size 3 2 1 2, spec_output_size 1 1 0 1, spec_output_size 1 1 0 1]"
    unfolding sx .
  with strided_padded_example show ?thesis by (rule_tac conjI)
qed

section \<open>The legacy mode\<close>

lemma init_Inr:
  assumes "init X a = Inr L"
  shows "\<exists>cl. convolutional_layer a = Conv3dModule cl \<and> forward_legacy_enabled L
           \<and> data (weight L) = data (src_weight cl) \<and> stride L = src_stride cl
           \<and> padding L = src_padding cl \<and> kernel_size L = src_kernel_size cl
           \<and> transform_output L = Identity"
proof (cases "convolutional_layer a")
  case OtherModule
  with assms show ?thesis by (simp add: init_def)
next
  case (Conv3dModule cl)
  show ?thesis
  proof (cases "src_bias cl")
    case None
    with Conv3dModule assms show ?thesis
      by (auto simp add: init_def Let_def split: if_splits)
  next
    case (Some sb)
    with Conv3dModule assms show ?thesis
      by (cases "base_bias a") (auto simp add: init_def Let_def split: if_splits)
  qed
qed

lemma conv3d_example:
  "conv3d \<lparr>shape = [1, 1, 2, 1, 1], vals = [2, 3]\<rparr> \<lparr>shape = [1, 1, 2, 1, 1], vals = [4, 6]\<rparr>
     (Some \<lparr>shape = [1], vals = [5]\<rparr>) (1, 1, 1) (0, 0, 0)
   = Inr \<lparr>shape = [1, 1, 1, 1, 1], vals = [31]\<rparr>"
  by code_simp

text \<open>
  Claim C5. A layer that the constructor returns has \<^verbatim>\<open>forward_legacy_enabled = True\<close>,
  and its forward call is the dense convolution \<^verbatim>\<open>torch.nn.functional.conv3d\<close> of the
  input with the source layer's weight, stride and padding and the layer's bias. More
  generally, every forward call on a layer whose flag is set is the dense convolution with
  the stored weight, bias, stride and padding; nothing of the simulation takes part.
\<close>

theorem patched_layer_runs_dense_convolution:
  "(init X a = Inr L \<longrightarrow>
      forward_legacy_enabled L
      \<and> (\<exists>cl. convolutional_layer a = Conv3dModule cl
            \<and> forward X L x = conv3d x (data (src_weight cl)) (map_option data (bias L))
                                 (src_stride cl) (src_padding cl)))
   \<and> (forward_legacy_enabled L' \<longrightarrow>
        forward X L' x = conv3d x (data (weight L')) (map_option data (bias L'))
                           (stride L') (padding L'))"
proof (intro conjI impI)
  assume i: "init X a = Inr L"
  from init_Inr [OF i] show "forward_legacy_enabled L" by blast
  from init_Inr [OF i]
  show "\<exists>cl. convolutional_layer a = Conv3dModule cl
            \<and> forward X L x = conv3d x (data (src_weight cl)) (map_option data (bias L))
                                 (src_stride cl) (src_padding cl)"
    by (auto simp: forward_def)
next
  assume "forward_legacy_enabled L'"
  then show "forward X L' x = conv3d x (data (weight L')) (map_option data (bias L'))
                           (stride L') (padding L')"
    by (simp add: forward_def)
qed

theorem patched_layer_runs_dense_convolution_witness:
  "run_patched (ideal_collab Identity)
     (conv_args 1 1 (2, 1, 1) (1, 1, 1) (0, 0, 0) \<lparr>shape = [1, 1, 2, 1, 1], vals = [4, 6]\<rparr>
        (Some \<lparr>shape = [1], vals = [5]\<rparr>))
     \<lparr>shape = [1, 1, 2, 1, 1], vals = [2, 3]\<rparr>
   = Inr \<lparr>shape = [1, 1, 1, 1, 1], vals = [31]\<rparr>"
proof -
  let ?X = "ideal_collab Identity"
  let ?a = "conv_args 1 1 (2, 1, 1) (1, 1, 1) (0, 0, 0) \<lparr>shape = [1, 1, 2, 1, 1], vals = [4, 6]\<rparr>
        (Some \<lparr>shape = [1], vals = [5]\<rparr>)"
  let ?x = "\<lparr>shape = [1, 1, 2, 1, 1], vals = [2, 3]\<rparr>"
  obtain L where i: "init ?X ?a = Inr L"
    and b: "bias L = Some \<lparr>data = \<lparr>shape = [1], vals = [5]\<rparr>, requires_grad = False\<rparr>"
    by (simp add: init_conv_args)
  from patched_layer_runs_dense_convolution [of ?X ?a L ?x] i
  obtain cl where "convolutional_layer ?a = Conv3dModule cl"
    and f: "forward ?X L ?x = conv3d ?x (data (src_weight cl)) (map_option data (bias L))
                                 (src_stride cl) (src_padding cl)"
    by blast
  then have "forward ?X L ?x = conv3d ?x \<lparr>shape = [1, 1, 2, 1, 1], vals = [4, 6]\<rparr>
       (Some \<lparr>shape = [1], vals = [5]\<rparr>) (1, 1, 1) (0, 0, 0)"
    using b by (auto simp: conv_args_def)
  with i show ?thesis by (simp only: run_patched_def bindE.simps conv3d_example)
qed



section \<open>Calibration overwrites\<close>

text \<open>The batch loop reads neither the output transform nor the bias.\<close>

lemma pad_input_ignores:
  "pad_input (L\<lparr>transform_output := t, bias := b\<rparr>) input i = pad_input L input i"
  by (simp add: pad_input_def)

lemma encode_input_ignores:
  "encode_input X (L\<lparr>transform_output := t, bias := b\<rparr>) u = encode_input X L u"
  by (simp add: encode_input_def cong: option.case_cong)

lemma unfold_input_ignores:
  "unfold_input (L\<lparr>transform_output := t, bias := b\<rparr>) u = unfold_input L u"
  by (simp add: unfold_input_def)

lemma nonlinear_matmul_ignores:
  "nonlinear_matmul X (L\<lparr>transform_output := t, bias := b\<rparr>) u = nonlinear_matmul X L u"
  by (simp add: nonlinear_matmul_def cong: option.case_cong list.case_cong)

lemma linear_matmul_ignores:
  "linear_matmul X (L\<lparr>transform_output := t, bias := b\<rparr>) u = linear_matmul X L u"
  by (simp add: linear_matmul_def cong: option.case_cong list.case_cong prod.case_cong)

lemma batch_step_ignores_transform_and_bias:
  "batch_step X (L\<lparr>transform_output := t, bias := b\<rparr>) input od i out = batch_step X L input od i out"
  by (simp add: batch_step_def pad_input_ignores encode_input_ignores unfold_input_ignores
      nonlinear_matmul_ignores linear_matmul_ignores cong: if_cong)

lemma batch_loop_ignores_transform_and_bias:
  "batch_loop X (L\<lparr>transform_output := t, bias := b\<rparr>) input od bs = batch_loop X L input od bs"
proof (induction bs)
  case Nil
  show ?case by (simp add: fun_eq_iff)
next
  case (Cons i bs)
  show ?case
    by (simp only: fun_eq_iff batch_loop.simps batch_step_ignores_transform_and_bias Cons.IH)
       simp
qed

lemma output_dim_ignores:
  "output_dim (L\<lparr>transform_output := t, bias := b\<rparr>) x = output_dim L x"
  by (simp add: output_dim_def)

lemma untransformed_unfold:
  "untransformed X L x =
     bindE (output_dim L x) (\<lambda>od.
       if list_ex (\<lambda>d. d < 0) od then Inl RuntimeError
       else
         bindE (batch_loop X L x (map nat od) [0..<shape x ! 0]
                  (zeros (shape x ! 0 # out_channels L # map nat od))) Inr)"
  unfolding untransformed_def forward_simulated_def output_dim_ignores
    batch_loop_ignores_transform_and_bias
  by (simp cong: if_cong)

lemma forward_simulated_factors:
  "forward_simulated X L x =
     bindE (untransformed X L x)
       (\<lambda>raw. case bias L of
                 None \<Rightarrow> Inr (apply_transform (transform_output L) raw)
               | Some b \<Rightarrow>
                   if shape x ! 0 = 0 then Inl UnboundLocalError
                   else add_bias_slot (apply_transform (transform_output L) raw)
                          (shape x ! 0 - 1) (data b))"
proof (cases "output_dim L x")
  case (Inl e)
  then show ?thesis
    by (simp only: untransformed_unfold forward_simulated_def bindE.simps if_True if_False)
next
  case od: (Inr od)
  show ?thesis
  proof (cases "list_ex (\<lambda>d. d < 0) od")
    case True
    with od show ?thesis
      by (simp only: untransformed_unfold forward_simulated_def bindE.simps if_True if_False)
  next
    case False
    show ?thesis
    proof (cases "batch_loop X L x (map nat od) [0..<shape x ! 0]
                  (zeros (shape x ! 0 # out_channels L # map nat od))")
      case (Inl e)
      with od False show ?thesis
        by (simp only: untransformed_unfold forward_simulated_def bindE.simps if_True if_False)
    next
      case (Inr raw)
      with od False show ?thesis
        by (simp only: untransformed_unfold forward_simulated_def bindE.simps if_True if_False)
    qed
  qed
qed

text \<open>
  Claim C8. After two calls of \<^verbatim>\<open>tune\<close> that return, the layer is the one the second
  call of \<^verbatim>\<open>naive_tune\<close> left, with \<^verbatim>\<open>transform_output\<close> replaced by the transform
  \<open>t2\<close> that this second call returned; and every later simulated call applies \<open>t2\<close>,
  once, to the untransformed output, before the bias. The transform of the first call
  does not occur in the result.
\<close>

theorem second_tune_wins:
  assumes "tune X L b1 n1 = Inr L1" and "tune X L1 b2 n2 = Inr L2"
  shows "\<exists>t2 L1'. naive_tune X L1 [b2, in_channels L1, n2, n2, n2] (verbose L1) = Inr (t2, L1')
           \<and> L2 = L1'\<lparr>transform_output := t2\<rparr>
           \<and> forward_simulated X L2 x =
               bindE (untransformed X L2 x)
                 (\<lambda>raw. case bias L2 of
                           None \<Rightarrow> Inr (apply_transform t2 raw)
                         | Some b \<Rightarrow>
                             if shape x ! 0 = 0 then Inl UnboundLocalError
                             else add_bias_slot (apply_transform t2 raw)
                                    (shape x ! 0 - 1) (data b))"
proof -
  from assms(2) obtain p where
    n: "naive_tune X L1 [b2, in_channels L1, n2, n2, n2] (verbose L1) = Inr p"
    by (cases "naive_tune X L1 [b2, in_channels L1, n2, n2, n2] (verbose L1)")
       (simp_all only: tune_def bindE.simps sum.distinct)
  obtain t2 L1' where p: "p = (t2, L1')" by (cases p)
  from assms(2) have l: "L2 = L1'\<lparr>transform_output := t2\<rparr>"
    unfolding tune_def n p bindE.simps prod.case sum.inject by (rule sym)
  have t: "transform_output L2 = t2" unfolding l by simp
  have s: "forward_simulated X L2 x =
               bindE (untransformed X L2 x)
                 (\<lambda>raw. case bias L2 of
                           None \<Rightarrow> Inr (apply_transform t2 raw)
                         | Some b \<Rightarrow>
                             if shape x ! 0 = 0 then Inl UnboundLocalError
                             else add_bias_slot (apply_transform t2 raw)
                                    (shape x ! 0 - 1) (data b))"
    by (subst forward_simulated_factors) (simp only: t)
  show ?thesis
  proof (intro exI conjI)
    show "naive_tune X L1 [b2, in_channels L1, n2, n2, n2] (verbose L1) = Inr (t2, L1')"
      using n unfolding p .
    show "L2 = L1'\<lparr>transform_output := t2\<rparr>" by (rule l)
    show "forward_simulated X L2 x =
               bindE (untransformed X L2 x)
                 (\<lambda>raw. case bias L2 of
                           None \<Rightarrow> Inr (apply_transform t2 raw)
                         | Some b \<Rightarrow>
                             if shape x ! 0 = 0 then Inl UnboundLocalError
                             else add_bias_slot (apply_transform t2 raw)
                                    (shape x ! 0 - 1) (data b))" by (rule s)
  qed
qed


lemma tuned_twice_example:
  "forward_simulated tuning_collab (unit_layer\<lparr>transform_output := Affine 2 8\<rparr>)
     (ones [1, 1, 1, 1, 1])
   = Inr \<lparr>shape = [1, 1, 1, 1, 1], vals = [15]\<rparr>"
  by code_simp

theorem second_tune_wins_witness:
  "bindE (tune tuning_collab unit_layer 4 32) (\<lambda>L1. tune tuning_collab L1 2 8)
     = Inr (unit_layer\<lparr>transform_output := Affine 2 8\<rparr>)
   \<and> forward_simulated tuning_collab (unit_layer\<lparr>transform_output := Affine 2 8\<rparr>)
       (ones [1, 1, 1, 1, 1])
     = bindE (untransformed tuning_collab (unit_layer\<lparr>transform_output := Affine 2 8\<rparr>)
                (ones [1, 1, 1, 1, 1]))
         (\<lambda>raw. add_bias_slot (apply_transform (Affine 2 8) raw) 0 \<lparr>shape = [1], vals = [5]\<rparr>)
   \<and> forward_simulated tuning_collab (unit_layer\<lparr>transform_output := Affine 2 8\<rparr>)
       (ones [1, 1, 1, 1, 1])
     = Inr \<lparr>shape = [1, 1, 1, 1, 1], vals = [15]\<rparr>"
proof -
  let ?X = tuning_collab
  let ?L1 = "unit_layer\<lparr>transform_output := Affine 4 32\<rparr>"
  let ?L2 = "unit_layer\<lparr>transform_output := Affine 2 8\<rparr>"
  let ?x = "ones [1, 1, 1, 1, 1]"
  have nt: "naive_tune ?X = shape_fit" by (simp add: tuning_collab_def)
  have ic: "in_channels unit_layer = 1" and vb: "verbose unit_layer = True"
    by (simp_all add: unit_layer_def)
  have t1: "tune ?X unit_layer 4 32 = Inr ?L1"
    by (simp add: tune_def nt shape_fit_def ic vb)
  have t2: "tune ?X ?L1 2 8 = Inr ?L2"
    by (simp add: tune_def nt shape_fit_def ic vb)
  from second_tune_wins [OF t1 t2, of ?x] obtain t L' where
    n: "naive_tune ?X ?L1 [2, in_channels ?L1, 8, 8, 8] (verbose ?L1) = Inr (t, L')"
    and f: "forward_simulated ?X ?L2 ?x =
              bindE (untransformed ?X ?L2 ?x)
                (\<lambda>raw. case bias ?L2 of
                          None \<Rightarrow> Inr (apply_transform t raw)
                        | Some b \<Rightarrow>
                            if shape ?x ! 0 = 0 then Inl UnboundLocalError
                            else add_bias_slot (apply_transform t raw)
                                   (shape ?x ! 0 - 1) (data b))"
    by blast
  from n have t: "t = Affine 2 8" by (simp add: nt shape_fit_def)
  have b: "bias ?L2 = Some \<lparr>data = \<lparr>shape = [1], vals = [5]\<rparr>, requires_grad = False\<rparr>"
    by (simp add: unit_layer_def)
  have sx: "shape ?x ! 0 = 1" by (simp add: ones_def)
  from f have 2: "forward_simulated ?X ?L2 ?x =
      bindE (untransformed ?X ?L2 ?x)
        (\<lambda>raw. add_bias_slot (apply_transform (Affine 2 8) raw) 0 \<lparr>shape = [1], vals = [5]\<rparr>)"
    unfolding t b sx by simp
  have 1: "bindE (tune ?X unit_layer 4 32) (\<lambda>L1. tune ?X L1 2 8) = Inr ?L2"
    by (simp only: t1 bindE.simps t2)
  from 1 2 tuned_twice_example show ?thesis by (intro conjI)
qed

end
